theory Spec2Isabelle
  imports Main "HOL-Library.Word"
begin

section \<open>The constants of the virtualization header\<close>

text \<open>
  \<^verbatim>\<open>ioctls.c\<close> includes \<^verbatim>\<open><linux/kvm.h>\<close> and prints seven of its macros. The header
  is the platform's, not the repository's, so the seven macros are a parameter of the
  model. A macro expands to a constant expression, which in C has a type and a value:
  the ioctl request codes are unsigned, either \<^verbatim>\<open>unsigned int\<close> (32 bits) or
  \<^verbatim>\<open>unsigned long\<close> (64 bits on an LP64 platform).
\<close>

datatype cval = UInt "32 word" | ULong "64 word"

fun cval_nat :: "cval \<Rightarrow> nat" where
  "cval_nat (UInt w) = unat w"
| "cval_nat (ULong w) = unat w"

record kvm_h =
  KVM_GET_API_VERSION :: cval
  KVM_CREATE_VM :: cval
  KVM_SET_USER_MEMORY_REGION :: cval
  KVM_CREATE_VCPU :: cval
  KVM_GET_VCPU_MMAP_SIZE :: cval
  KVM_GET_SREGS :: cval
  KVM_SET_SREGS :: cval

section \<open>The process and its environment\<close>

text \<open>
  What a run can observe or change: the command line, the environment variables, the
  files, the two output streams (the bytes transmitted so far), and the behaviour of
  standard output towards the coming writes (\<open>faults\<close>: the head tells whether the
  next write is rejected; an empty list rejects nothing). \<open>ret\<close> is the register in
  which a function returning \<^verbatim>\<open>int\<close> hands its result to its caller.
\<close>

record proc =
  argv :: "string list"
  envp :: "string list"
  files :: "(string \<times> string) list"
  stdout :: string
  stderr :: string
  faults :: "bool list"
  ret :: int

section \<open>The formatted-output routine\<close>

text \<open>
  \<^verbatim>\<open>%lu\<close> fetches an \<^verbatim>\<open>unsigned long\<close> from the variable arguments. An
  \<^verbatim>\<open>unsigned int\<close> argument is not promoted by the call, and C leaves the fetch
  undefined then. On an LP64 platform the compiler passes such a constant in a 64-bit
  register, zero-extended, and the fetch reads its value; the model takes that.
\<close>

fun va_arg_ulong :: "cval \<Rightarrow> 64 word" where
  "va_arg_ulong (ULong w) = w"
| "va_arg_ulong (UInt w) = ucast w"

definition digit :: "nat \<Rightarrow> char" where
  "digit d = ''0123456789'' ! d"

text \<open>The digits are produced from the least significant one, each put in front.\<close>

function ultoa :: "nat \<Rightarrow> string \<Rightarrow> string" where
  "ultoa n acc = (if n div 10 = 0 then digit (n mod 10) # acc
                  else ultoa (n div 10) (digit (n mod 10) # acc))"
  by pat_completeness auto
termination
  by (relation "measure fst") auto

declare ultoa.simps [simp del]

definition dec :: "nat \<Rightarrow> string" where
  "dec n = ultoa n []"

text \<open>
  The format is copied byte by byte; \<^verbatim>\<open>%lu\<close> (the one conversion the program uses)
  consumes the next argument. Any other directive, or a conversion with no argument
  left, gives no result.
\<close>

fun format :: "string \<Rightarrow> cval list \<Rightarrow> string option" where
  "format [] as = Some []"
| "format (c # fs) as =
     (if c = CHR ''%'' then
        (case (fs, as) of
           (l # u # fs', a # as') \<Rightarrow>
             if l = CHR ''l'' \<and> u = CHR ''u''
             then map_option (\<lambda>r. dec (unat (va_arg_ulong a)) @ r) (format fs' as')
             else None
         | _ \<Rightarrow> None)
      else map_option (\<lambda>r. c # r) (format fs as))"

text \<open>
  Standard output is taken the way a terminal is driven, line by line: each call hands
  the stream its line, and the stream either transmits all of it and the call returns
  the number of bytes, or rejects it, transmits nothing, and the call returns a
  negative result. When standard output is a file or a pipe the C library collects
  the lines instead and writes them when the process exits, so that the calls succeed
  whatever becomes of the write; and a write can be cut short, can block, or can end
  the process by a signal. \<open>write_stdout\<close> has none of that. On runs whose writes are
  accepted the two agree: the same bytes reach the stream and every call returns the
  length of its line. The program over an arbitrary output routine is \<open>main_prog\<close>
  below.
\<close>

definition rejects :: "bool list \<Rightarrow> bool" where
  "rejects fs = (case fs of [] \<Rightarrow> False | f # _ \<Rightarrow> f)"

definition write_stdout :: "string \<Rightarrow> proc \<Rightarrow> proc" where
  "write_stdout s p =
     (if rejects (faults p) then p\<lparr>faults := tl (faults p), ret := - 1\<rparr>
      else p\<lparr>stdout := stdout p @ s, faults := tl (faults p), ret := int (length s)\<rparr>)"

definition printf :: "string \<Rightarrow> cval list \<Rightarrow> proc \<Rightarrow> proc" where
  "printf fmt as p =
     (case format fmt as of
        None \<Rightarrow> p\<lparr>ret := - 1\<rparr>
      | Some s \<Rightarrow> write_stdout s p)"

section \<open>ioctls.c\<close>

text \<open>
  \<^verbatim>\<open>void main()\<close>: seven calls of \<^verbatim>\<open>printf\<close>, each result discarded, no
  \<^verbatim>\<open>return\<close>.
\<close>

definition main :: "kvm_h \<Rightarrow> proc \<Rightarrow> proc" where
  "main h p0 =
     (let p1 = printf ''KVM_GET_API_VERSION = %lu\<newline>'' [KVM_GET_API_VERSION h] p0;
          p2 = printf ''KVM_CREATE_VM = %lu\<newline>'' [KVM_CREATE_VM h] p1;
          p3 = printf ''KVM_SET_USER_MEMORY_REGION = %lu\<newline>''
                 [KVM_SET_USER_MEMORY_REGION h] p2;
          p4 = printf ''KVM_CREATE_VCPU = %lu\<newline>'' [KVM_CREATE_VCPU h] p3;
          p5 = printf ''KVM_GET_VCPU_MMAP_SIZE = %lu\<newline>'' [KVM_GET_VCPU_MMAP_SIZE h] p4;
          p6 = printf ''KVM_GET_SREGS = %lu\<newline>'' [KVM_GET_SREGS h] p5;
          p7 = printf ''KVM_SET_SREGS = %lu\<newline>'' [KVM_SET_SREGS h] p6
      in p7)"

text \<open>
  The C start-up code passes what \<^verbatim>\<open>main\<close> returns to \<^verbatim>\<open>exit\<close>, and the host
  sees its low eight bits. A \<^verbatim>\<open>main\<close> declared \<^verbatim>\<open>void\<close> returns nothing, so the
  start-up code reads the result register as the last call left it.
\<close>

definition exit_status :: "proc \<Rightarrow> int" where
  "exit_status p = ret p mod 256"

text \<open>The seven calls of \<^verbatim>\<open>main\<close> as a list: the format and the arguments of each.\<close>

definition body :: "kvm_h \<Rightarrow> (string \<times> cval list) list" where
  "body h =
     [(''KVM_GET_API_VERSION = %lu\<newline>'', [KVM_GET_API_VERSION h]),
      (''KVM_CREATE_VM = %lu\<newline>'', [KVM_CREATE_VM h]),
      (''KVM_SET_USER_MEMORY_REGION = %lu\<newline>'', [KVM_SET_USER_MEMORY_REGION h]),
      (''KVM_CREATE_VCPU = %lu\<newline>'', [KVM_CREATE_VCPU h]),
      (''KVM_GET_VCPU_MMAP_SIZE = %lu\<newline>'', [KVM_GET_VCPU_MMAP_SIZE h]),
      (''KVM_GET_SREGS = %lu\<newline>'', [KVM_GET_SREGS h]),
      (''KVM_SET_SREGS = %lu\<newline>'', [KVM_SET_SREGS h])]"











section \<open>The vocabulary of the specification\<close>

text \<open>
  The specification speaks of lines of the form \<^verbatim>\<open>NAME = <non-negative integer>\<close>, of
  the decimal representation of a constant, and of the fixed list of names. These
  definitions follow its words; none of them is used by the program above.
\<close>

definition names :: "string list" where
  "names = [''KVM_GET_API_VERSION'', ''KVM_CREATE_VM'', ''KVM_SET_USER_MEMORY_REGION'',
            ''KVM_CREATE_VCPU'', ''KVM_GET_VCPU_MMAP_SIZE'', ''KVM_GET_SREGS'',
            ''KVM_SET_SREGS'']"

definition consts_of :: "kvm_h \<Rightarrow> cval list" where
  "consts_of h = [KVM_GET_API_VERSION h, KVM_CREATE_VM h, KVM_SET_USER_MEMORY_REGION h,
                  KVM_CREATE_VCPU h, KVM_GET_VCPU_MMAP_SIZE h, KVM_GET_SREGS h,
                  KVM_SET_SREGS h]"

text \<open>The line the specification asks for, and the seven of them in its order.\<close>

definition kvm_line :: "string \<Rightarrow> nat \<Rightarrow> string" where
  "kvm_line name v = name @ '' = '' @ dec v @ ''\<newline>''"

definition report :: "kvm_h \<Rightarrow> string list" where
  "report h = map2 kvm_line names (map cval_nat (consts_of h))"

definition texts :: "kvm_h \<Rightarrow> string list" where
  "texts h = map2 (\<lambda>name c. name @ '' = '' @ dec (cval_nat c)) names (consts_of h)"

text \<open>
  Reading the output back: the lines of a byte string (a line ends at a newline; bytes
  after the last newline would count as one more line), the two fields of a line, and
  the number a string of decimal digits denotes.
\<close>

fun lines_of :: "string \<Rightarrow> string \<Rightarrow> string list" where
  "lines_of cur [] = (if cur = [] then [] else [cur])"
| "lines_of cur (c # cs) =
     (if c = CHR ''\<newline>'' then cur # lines_of [] cs else lines_of (cur @ [c]) cs)"

definition is_digit :: "char \<Rightarrow> bool" where
  "is_digit c = (c \<in> set ''0123456789'')"

definition digit_val :: "char \<Rightarrow> nat" where
  "digit_val c = of_char c - 48"

definition undec :: "string \<Rightarrow> nat" where
  "undec ds = foldl (\<lambda>n c. 10 * n + digit_val c) 0 ds"

definition is_decimal :: "string \<Rightarrow> bool" where
  "is_decimal ds = (ds \<noteq> [] \<and> list_all is_digit ds)"

definition canonical :: "string \<Rightarrow> bool" where
  "canonical ds = (is_decimal ds \<and> (ds = ''0'' \<or> hd ds \<noteq> CHR ''0''))"

definition parse_line :: "string \<Rightarrow> (string \<times> string) option" where
  "parse_line l =
     (let name = takeWhile (\<lambda>c. c \<noteq> CHR '' '') l;
          rest = dropWhile (\<lambda>c. c \<noteq> CHR '' '') l
      in if name \<noteq> [] \<and> take 3 rest = '' = '' \<and> is_decimal (drop 3 rest)
         then Some (name, drop 3 rest) else None)"

text \<open>
  What a run adds to standard output, the items of a sequence of writes that a stream
  lets through, and a stream that accepts the next \<open>n\<close> writes.
\<close>

definition written :: "kvm_h \<Rightarrow> proc \<Rightarrow> string" where
  "written h p = drop (length (stdout p)) (stdout (main h p))"

fun delivered :: "'a list \<Rightarrow> bool list \<Rightarrow> 'a list" where
  "delivered [] fs = []"
| "delivered (l # ls) fs =
     (if rejects fs then delivered ls (tl fs) else l # delivered ls (tl fs))"

definition accepts :: "nat \<Rightarrow> proc \<Rightarrow> bool" where
  "accepts n p = list_all (\<lambda>f. \<not> f) (take n (faults p))"

text \<open>Whether an argument has the type \<^verbatim>\<open>%lu\<close> expects.\<close>

fun lu_matches :: "cval \<Rightarrow> bool" where
  "lu_matches (ULong _) = True"
| "lu_matches (UInt _) = False"

section \<open>Concrete runs\<close>

text \<open>
  The header of Linux on x86-64. There \<^verbatim>\<open>_IO(KVMIO, nr)\<close> expands to
  \<^verbatim>\<open>((0U << 30) | (0xAE << 8) | (nr << 0) | (0 << 16))\<close>, an \<^verbatim>\<open>unsigned int\<close>, and
  \<^verbatim>\<open>_IOR\<close> and \<^verbatim>\<open>_IOW\<close> put \<^verbatim>\<open>sizeof\<close> of the argument structure into the size
  field, which makes the expression an \<^verbatim>\<open>unsigned long\<close>:
  \<^verbatim>\<open>KVM_GET_API_VERSION = _IO(KVMIO, 0x00)\<close>, \<^verbatim>\<open>KVM_CREATE_VM = _IO(KVMIO, 0x01)\<close>,
  \<^verbatim>\<open>KVM_SET_USER_MEMORY_REGION = _IOW(KVMIO, 0x46, struct kvm_userspace_memory_region)\<close>,
  \<^verbatim>\<open>KVM_CREATE_VCPU = _IO(KVMIO, 0x41)\<close>, \<^verbatim>\<open>KVM_GET_VCPU_MMAP_SIZE = _IO(KVMIO, 0x04)\<close>,
  \<^verbatim>\<open>KVM_GET_SREGS = _IOR(KVMIO, 0x83, struct kvm_sregs)\<close> and
  \<^verbatim>\<open>KVM_SET_SREGS = _IOW(KVMIO, 0x84, struct kvm_sregs)\<close>.
\<close>

definition kvm_x86_64 :: kvm_h where
  "kvm_x86_64 =
     \<lparr>KVM_GET_API_VERSION = UInt 0xAE00,
      KVM_CREATE_VM = UInt 0xAE01,
      KVM_SET_USER_MEMORY_REGION = ULong 0x4020AE46,
      KVM_CREATE_VCPU = UInt 0xAE41,
      KVM_GET_VCPU_MMAP_SIZE = UInt 0xAE04,
      KVM_GET_SREGS = ULong 0x8138AE83,
      KVM_SET_SREGS = ULong 0x4138AE84\<rparr>"

text \<open>
  A process as a shell starts it: the given command line, nothing written yet, and the
  given behaviour of standard output.
\<close>

definition shell :: "string list \<Rightarrow> bool list \<Rightarrow> proc" where
  "shell args fs =
     \<lparr>argv = args, envp = [], files = [], stdout = [], stderr = [], faults = fs, ret = 0\<rparr>"

section \<open>The formatted-output routine: lemmas\<close>

lemma unat_ucast_32_64: "unat (ucast (w :: 32 word) :: 64 word) = unat w"
proof -
  have "unat w < 2 ^ 32" using unsigned_less [of w] by simp
  then have "unat w < 2 ^ 64" by simp
  then show ?thesis by (simp add: unsigned_ucast_eq take_bit_nat_eq_self)
qed

lemma unat_va_arg_ulong: "unat (va_arg_ulong c) = cval_nat c"
  by (cases c) (simp_all add: unat_ucast_32_64)

lemma format_line:
  "format (name @ '' = %lu\<newline>'') [a] = Some (kvm_line name (cval_nat a))" if "CHR ''%'' \<notin> set name"
  using that by (induction name) (auto simp add: kvm_line_def unat_va_arg_ulong)

lemma printf_line:
  "CHR ''%'' \<notin> set name \<Longrightarrow> printf (name @ '' = %lu\<newline>'') [a] p = write_stdout (kvm_line name (cval_nat a)) p"
  by (simp add: printf_def format_line)

lemma main_fold: "main h p = fold write_stdout (report h) p"
  using printf_line[of "''KVM_GET_API_VERSION''"] printf_line[of "''KVM_CREATE_VM''"]
   printf_line[of "''KVM_SET_USER_MEMORY_REGION''"] printf_line[of "''KVM_CREATE_VCPU''"]
   printf_line[of "''KVM_GET_VCPU_MMAP_SIZE''"] printf_line[of "''KVM_GET_SREGS''"] printf_line[of "''KVM_SET_SREGS''"]
  by (simp add: main_def report_def names_def consts_of_def Let_def)

lemma body_fold: "main h p = fold (\<lambda>(fmt, as). printf fmt as) (body h) p"
  by (simp add: main_def body_def Let_def)


subsection \<open>A sequence of writes\<close>

lemma write_stdout_frame:
  "argv (write_stdout s p) = argv p" "envp (write_stdout s p) = envp p"
  "files (write_stdout s p) = files p" "stderr (write_stdout s p) = stderr p"
  "faults (write_stdout s p) = tl (faults p)"
  by (simp_all add: write_stdout_def)

lemma fold_write_frame:
  "argv (fold write_stdout ls p) = argv p \<and> envp (fold write_stdout ls p) = envp p \<and>
   files (fold write_stdout ls p) = files p \<and> stderr (fold write_stdout ls p) = stderr p"
  by (induction ls arbitrary: p) (simp_all add: write_stdout_frame)

lemma fold_write_faults: "faults (fold write_stdout ls p) = drop (length ls) (faults p)"
  by (induction ls arbitrary: p) (simp_all add: write_stdout_frame drop_Suc)

lemma fold_write_stdout:
  "stdout (fold write_stdout ls p) = stdout p @ concat (delivered ls (faults p))"
  by (induction ls arbitrary: p) (simp_all add: write_stdout_def)

lemma delivered_all: "list_all (\<lambda>f. \<not> f) (take (length ls) fs) \<Longrightarrow> delivered ls fs = ls"
proof (induction ls arbitrary: fs)
  case Nil
  then show ?case by simp
next
  case (Cons l ls)
  then show ?case by (cases fs) (simp_all add: rejects_def)
qed

lemma fold_write_ret:
  "ret (fold write_stdout (ls @ [l]) p) =
     (if rejects (drop (length ls) (faults p)) then - 1 else int (length l))"
  by (simp add: write_stdout_def fold_write_faults)

subsection \<open>Decimal digits\<close>

lemma is_digit_digit: "d < 10 \<Longrightarrow> is_digit (digit d)"
proof -
  assume "d < 10"
  then have "d \<in> {0, 1, 2, 3, 4, 5, 6, 7, 8, 9}" by auto
  then show ?thesis by (auto simp add: is_digit_def digit_def)
qed

lemma digit_val_digit: "d < 10 \<Longrightarrow> digit_val (digit d) = d"
proof -
  assume "d < 10"
  then have "d \<in> {0, 1, 2, 3, 4, 5, 6, 7, 8, 9}" by auto
  then show ?thesis by (auto simp add: digit_val_def digit_def)
qed

lemma ultoa_digits: "list_all is_digit acc \<Longrightarrow> list_all is_digit (ultoa n acc)"
proof (induction n acc rule: ultoa.induct)
  case (1 n acc)
  have d: "is_digit (digit (n mod 10))" by (rule is_digit_digit) simp
  show ?case
  proof (cases "n div 10 = 0")
    case True
    with d "1.prems" show ?thesis by (simp add: ultoa.simps [of n acc])
  next
    case False
    with d "1.prems" "1.IH" show ?thesis by (simp add: ultoa.simps [of n acc])
  qed
qed

lemma ultoa_not_Nil: "ultoa n acc \<noteq> []"
  by (induction n acc rule: ultoa.induct) (simp add: ultoa.simps)

lemma ultoa_undec:
  "foldl (\<lambda>n c. 10 * n + digit_val c) 0 (ultoa n acc) = foldl (\<lambda>n c. 10 * n + digit_val c) n acc"
proof (induction n acc rule: ultoa.induct)
  case (1 n acc)
  have d: "digit_val (digit (n mod 10)) = n mod 10" by (rule digit_val_digit) simp
  show ?case
  proof (cases "n div 10 = 0")
    case True
    then have "n mod 10 = n" by (simp add: div_eq_0_iff)
    with True d show ?thesis by (simp add: ultoa.simps [of n acc])
  next
    case False
    have "10 * (n div 10) + n mod 10 = n" by simp
    with False d "1.IH" show ?thesis by (simp add: ultoa.simps [of n acc])
  qed
qed

lemma is_decimal_dec: "is_decimal (dec n)"
  by (simp add: is_decimal_def dec_def ultoa_not_Nil ultoa_digits)

lemma undec_dec: "undec (dec n) = n"
  by (simp add: undec_def dec_def ultoa_undec)

lemma is_digit_not_newline: "is_digit c \<Longrightarrow> c \<noteq> CHR ''\<newline>''"
  by (auto simp add: is_digit_def)

lemma dec_no_newline: "CHR ''\<newline>'' \<notin> set (dec n)"
  using is_decimal_dec [of n] is_digit_not_newline
  by (auto simp add: is_decimal_def list_all_iff)



subsection \<open>Canonical numerals and their length\<close>

lemma digit_zero: "d < 10 \<Longrightarrow> 0 < d \<Longrightarrow> digit d \<noteq> CHR ''0''"
proof -
  assume "d < 10" "0 < d"
  then have "d \<in> {1, 2, 3, 4, 5, 6, 7, 8, 9}" by auto
  then show ?thesis by (auto simp add: digit_def)
qed

lemma ultoa_hd: "0 < n \<Longrightarrow> hd (ultoa n acc) \<noteq> CHR ''0''"
proof (induction n acc rule: ultoa.induct)
  case (1 n acc)
  show ?case
  proof (cases "n div 10 = 0")
    case True
    then have "n mod 10 = n" by (simp add: div_eq_0_iff)
    moreover have "n < 10" using True by (simp add: div_eq_0_iff)
    ultimately show ?thesis
      using True "1.prems" digit_zero [of n] by (simp add: ultoa.simps [of n acc])
  next
    case False
    then have "0 < n div 10" by simp
    with False "1.IH" show ?thesis by (simp add: ultoa.simps [of n acc])
  qed
qed

lemma dec_zero: "dec 0 = ''0''"
  by (simp add: dec_def ultoa.simps digit_def)

lemma canonical_dec: "canonical (dec n)"
proof (cases "n = 0")
  case True
  with is_decimal_dec [of 0] show ?thesis by (simp add: canonical_def dec_zero)
next
  case False
  then have "hd (dec n) \<noteq> CHR ''0''" by (simp add: dec_def ultoa_hd)
  then show ?thesis by (simp add: canonical_def is_decimal_dec)
qed

lemma ultoa_length_le: "0 < k \<Longrightarrow> n < 10 ^ k \<Longrightarrow> length (ultoa n acc) \<le> length acc + k"
proof (induction n acc arbitrary: k rule: ultoa.induct)
  case (1 n acc)
  show ?case
  proof (cases "n div 10 = 0")
    case True
    with "1.prems" show ?thesis by (simp add: ultoa.simps [of n acc])
  next
    case False
    then have n10: "10 \<le> n" by (simp add: div_eq_0_iff)
    obtain j where k: "k = Suc j" using "1.prems"(1) by (cases k) auto
    have "0 < j"
    proof (rule ccontr)
      assume "\<not> 0 < j"
      with k "1.prems"(2) n10 show False by simp
    qed
    moreover have "n div 10 < 10 ^ j"
      using "1.prems"(2) k by (simp add: less_mult_imp_div_less mult.commute)
    ultimately have "length (ultoa (n div 10) (digit (n mod 10) # acc)) \<le> length (digit (n mod 10) # acc) + j"
      using "1.IH" False by blast
    with False k show ?thesis by (simp add: ultoa.simps [of n acc])
  qed
qed

lemma cval_nat_bound: "cval_nat c < 10 ^ 20"
proof -
  have "cval_nat c < 2 ^ 64"
  proof (cases c)
    case (UInt w)
    have "unat w < 2 ^ 32" using unsigned_less [of w] by simp
    then show ?thesis using UInt by simp
  next
    case (ULong w)
    have "unat w < 2 ^ 64" using unsigned_less [of w] by simp
    then show ?thesis using ULong by simp
  qed
  then show ?thesis by simp
qed

lemma length_dec: "1 \<le> length (dec (cval_nat c)) \<and> length (dec (cval_nat c)) \<le> 20"
proof -
  have "ultoa (cval_nat c) [] \<noteq> []" by (rule ultoa_not_Nil)
  then have "1 \<le> length (ultoa (cval_nat c) [])" by (cases "ultoa (cval_nat c) []") simp_all
  moreover have "length (ultoa (cval_nat c) []) \<le> 20"
    using ultoa_length_le [of 20 "cval_nat c" "[]"] cval_nat_bound [of c] by simp
  ultimately show ?thesis by (simp add: dec_def)
qed

subsection \<open>Lines\<close>

lemma lines_of_line:
  "CHR ''\<newline>'' \<notin> set l \<Longrightarrow> lines_of cur (l @ CHR ''\<newline>'' # rest) = (cur @ l) # lines_of [] rest"
  by (induction l arbitrary: cur) auto

lemma lines_of_concat:
  "list_all (\<lambda>t. CHR ''\<newline>'' \<notin> set t) ts \<Longrightarrow>
   lines_of [] (concat (map (\<lambda>t. t @ ''\<newline>'') ts)) = ts"
  by (induction ts) (simp_all add: lines_of_line)

lemma parse_line_text:
  assumes "name \<noteq> []" and "CHR '' '' \<notin> set name" and "is_decimal ds"
  shows "parse_line (name @ '' = '' @ ds) = Some (name, ds)"
proof -
  have t: "takeWhile (\<lambda>c. c \<noteq> CHR '' '') (name @ '' = '' @ ds) = name"
    using assms(2) by (induction name) auto
  have d: "dropWhile (\<lambda>c. c \<noteq> CHR '' '') (name @ '' = '' @ ds) = '' = '' @ ds"
    using assms(2) by (induction name) auto
  show ?thesis unfolding parse_line_def t d using assms(1,3) by (simp add: Let_def)
qed

subsection \<open>The run as seven writes\<close>

lemma length_report: "length (report h) = 7"
  by (simp add: report_def names_def consts_of_def)

lemma main_frame:
  "argv (main h p) = argv p \<and> envp (main h p) = envp p \<and>
   files (main h p) = files p \<and> stderr (main h p) = stderr p"
  by (simp add: main_fold fold_write_frame)

lemma main_faults: "faults (main h p) = drop 7 (faults p)"
  by (simp add: main_fold fold_write_faults length_report)

lemma main_stdout: "stdout (main h p) = stdout p @ concat (delivered (report h) (faults p))"
  by (simp add: main_fold fold_write_stdout)

lemma written_delivered: "written h p = concat (delivered (report h) (faults p))"
  by (simp add: written_def main_stdout)

lemma written_accepts: "accepts 7 p \<Longrightarrow> written h p = concat (report h)"
  by (simp add: written_delivered accepts_def delivered_all length_report)

lemma report_texts: "report h = map (\<lambda>t. t @ ''\<newline>'') (texts h)"
  by (simp add: report_def texts_def kvm_line_def names_def consts_of_def)

lemma texts_no_newline: "list_all (\<lambda>t. CHR ''\<newline>'' \<notin> set t) (texts h)"
  by (simp add: texts_def names_def consts_of_def dec_no_newline)

lemma lines_written: "accepts 7 p \<Longrightarrow> lines_of [] (written h p) = texts h"
  by (simp add: written_accepts report_texts lines_of_concat texts_no_newline)

lemma parse_map2:
  assumes "length ns = length cs" and "list_all (\<lambda>n. n \<noteq> [] \<and> CHR '' '' \<notin> set n) ns"
  shows "map parse_line (map2 (\<lambda>name c. name @ '' = '' @ dec (cval_nat c)) ns cs) =
         map Some (zip ns (map (\<lambda>c. dec (cval_nat c)) cs))"
  using assms
proof (induction ns cs rule: list_induct2)
  case Nil
  then show ?case by simp
next
  case (Cons n ns c cs)
  then have "parse_line (n @ '' = '' @ dec (cval_nat c)) = Some (n, dec (cval_nat c))"
    by (intro parse_line_text) (simp_all add: is_decimal_dec)
  with Cons show ?case by simp
qed

lemma names_tokens: "list_all (\<lambda>n. n \<noteq> [] \<and> CHR '' '' \<notin> set n) names"
  by (simp add: names_def)

lemma parse_texts:
  "map parse_line (texts h) = map Some (zip names (map (\<lambda>c. dec (cval_nat c)) (consts_of h)))"
  unfolding texts_def
  by (rule parse_map2) (simp_all add: names_tokens, simp add: names_def consts_of_def)

lemma main_ret:
  "ret (main h p) =
     (if rejects (drop 6 (faults p)) then - 1
      else int (length (kvm_line ''KVM_SET_SREGS'' (cval_nat (KVM_SET_SREGS h)))))"
proof -
  have "report h = butlast (report h) @ [kvm_line ''KVM_SET_SREGS'' (cval_nat (KVM_SET_SREGS h))]"
    by (simp add: report_def names_def consts_of_def)
  moreover have "length (butlast (report h)) = 6"
    by (simp add: length_report)
  ultimately show ?thesis
    using fold_write_ret [of "butlast (report h)" "kvm_line ''KVM_SET_SREGS'' (cval_nat (KVM_SET_SREGS h))" p]
    by (simp add: main_fold)
qed

subsection \<open>Concrete runs and the last call\<close>

lemma report_x86_64:
  "report kvm_x86_64 =
     [''KVM_GET_API_VERSION = 44544\<newline>'',
      ''KVM_CREATE_VM = 44545\<newline>'',
      ''KVM_SET_USER_MEMORY_REGION = 1075883590\<newline>'',
      ''KVM_CREATE_VCPU = 44609\<newline>'',
      ''KVM_GET_VCPU_MMAP_SIZE = 44548\<newline>'',
      ''KVM_GET_SREGS = 2167975555\<newline>'',
      ''KVM_SET_SREGS = 1094233732\<newline>'']"
  by (simp add: report_def names_def consts_of_def kvm_x86_64_def kvm_line_def dec_def
      ultoa.simps digit_def)

lemma accepts_shell_Nil: "accepts n (shell args [])"
  by (simp add: accepts_def shell_def)

lemma accepts_last: "accepts 7 p \<Longrightarrow> \<not> rejects (drop 6 (faults p))"
proof -
  assume a: "accepts 7 p"
  have "take 7 (faults p) = take 6 (faults p) @ take 1 (drop 6 (faults p))"
    using take_add [of 6 1 "faults p"] by simp
  with a have "list_all (\<lambda>f. \<not> f) (take 1 (drop 6 (faults p)))"
    by (simp add: accepts_def)
  then show ?thesis by (cases "drop 6 (faults p)") (simp_all add: rejects_def)
qed

lemma texts_not_Nil: "[] \<notin> set (texts h)"
  by (simp add: texts_def names_def consts_of_def)

lemma last_written: "accepts 7 p \<Longrightarrow> written h p \<noteq> [] \<and> last (written h p) = CHR ''\<newline>''"
  by (simp add: written_accepts report_def names_def consts_of_def kvm_line_def)

lemma echoed_map2:
  assumes "length ns = length cs" and "list_all (\<lambda>n. n \<noteq> [] \<and> CHR '' '' \<notin> set n) ns"
  shows "list_all2
           (\<lambda>l c. case parse_line l of
                     None \<Rightarrow> False
                   | Some (name, ds) \<Rightarrow> canonical ds \<and> undec ds = cval_nat c)
           (map2 (\<lambda>name c. name @ '' = '' @ dec (cval_nat c)) ns cs) cs"
  using assms
proof (induction ns cs rule: list_induct2)
  case Nil
  then show ?case by simp
next
  case (Cons n ns c cs)
  then have "parse_line (n @ '' = '' @ dec (cval_nat c)) = Some (n, dec (cval_nat c))"
    by (intro parse_line_text) (simp_all add: is_decimal_dec)
  with Cons show ?case by (simp add: canonical_dec undec_dec)
qed

lemma echoed_texts:
  "list_all2
     (\<lambda>l c. case parse_line l of
               None \<Rightarrow> False
             | Some (name, ds) \<Rightarrow> canonical ds \<and> undec ds = cval_nat c)
     (texts h) (consts_of h)"
proof -
  have "length names = length (consts_of h)" by (simp add: names_def consts_of_def)
  then show ?thesis
    unfolding texts_def using names_tokens by (rule echoed_map2)
qed

lemma delivered_map: "delivered (map f xs) fs = map f (delivered xs fs)"
  by (induction xs arbitrary: fs) simp_all

lemma list_all_delivered: "list_all P xs \<Longrightarrow> list_all P (delivered xs fs)"
  by (induction xs arbitrary: fs) simp_all

lemma list_all2_delivered:
  "list_all2 P xs ys \<Longrightarrow> list_all2 P (delivered xs fs) (delivered ys fs)"
proof (induction xs ys arbitrary: fs rule: list_all2_induct)
  case Nil
  then show ?case by simp
next
  case (Cons x xs y ys)
  then show ?case by simp
qed

lemma lines_written_delivered: "lines_of [] (written h p) = delivered (texts h) (faults p)"
  by (simp add: written_delivered report_texts delivered_map lines_of_concat
      list_all_delivered texts_no_newline)


subsection \<open>The program and its calls\<close>





section \<open>The claims\<close>

text \<open>
  C1, as amended. In every run in which standard output accepts the seven writes, the
  program adds to standard output exactly seven lines, each of the form
  \<^verbatim>\<open>NAME = <non-negative integer>\<close>, the names being \<^verbatim>\<open>KVM_GET_API_VERSION\<close>,
  \<^verbatim>\<open>KVM_CREATE_VM\<close>, \<^verbatim>\<open>KVM_SET_USER_MEMORY_REGION\<close>, \<^verbatim>\<open>KVM_CREATE_VCPU\<close>,
  \<^verbatim>\<open>KVM_GET_VCPU_MMAP_SIZE\<close>, \<^verbatim>\<open>KVM_GET_SREGS\<close>, \<^verbatim>\<open>KVM_SET_SREGS\<close> in that order,
  with no blank line, no extra line, and a newline after the last line.
\<close>

theorem seven_lines:
  "accepts 7 p \<Longrightarrow>
     stdout (main h p) = stdout p @ written h p \<and>
     length (lines_of [] (written h p)) = 7 \<and>
     map (map_option fst \<circ> parse_line) (lines_of [] (written h p)) =
       map Some [''KVM_GET_API_VERSION'', ''KVM_CREATE_VM'', ''KVM_SET_USER_MEMORY_REGION'',
                 ''KVM_CREATE_VCPU'', ''KVM_GET_VCPU_MMAP_SIZE'', ''KVM_GET_SREGS'',
                 ''KVM_SET_SREGS''] \<and>
     [] \<notin> set (lines_of [] (written h p)) \<and>
     written h p \<noteq> [] \<and> last (written h p) = CHR ''\<newline>''"
proof -
  assume a: "accepts 7 p"
  have l: "lines_of [] (written h p) = texts h" using a by (rule lines_written)
  have 1: "stdout (main h p) = stdout p @ written h p"
    by (simp add: written_delivered main_stdout)
  have 2: "length (texts h) = 7" by (simp add: texts_def names_def consts_of_def)
  have "map (map_option fst \<circ> parse_line) (texts h) = map (map_option fst) (map parse_line (texts h))"
    by simp
  also have "\<dots> = map Some names"
    unfolding parse_texts by (simp add: names_def consts_of_def)
  finally have 3: "map (map_option fst \<circ> parse_line) (texts h) = map Some names" .
  show ?thesis
    using 1 2 3 texts_not_Nil [of h] last_written [OF a, of h] by (simp add: l names_def)
qed

text \<open>The amended C1 on x86-64 Linux, started from a shell with a working output.\<close>

theorem seven_lines_witness:
  "accepts 7 (shell [''./ioctls''] []) \<and>
   length (lines_of [] (written kvm_x86_64 (shell [''./ioctls''] []))) = 7 \<and>
   last (written kvm_x86_64 (shell [''./ioctls''] [])) = CHR ''\<newline>''"
  using seven_lines [of "shell [''./ioctls''] []" kvm_x86_64] accepts_shell_Nil [of 7 "[''./ioctls'']"]
  by simp

text \<open>
  C1 as stated speaks of every run. Started with standard output closed, so that each
  of the seven writes is rejected, the program writes nothing at all: no line, and no
  trailing newline.
\<close>

theorem closed_stdout_no_lines:
  "written kvm_x86_64 (shell [''./ioctls''] [True, True, True, True, True, True, True]) = [] \<and>
   length (lines_of []
     (written kvm_x86_64 (shell [''./ioctls''] [True, True, True, True, True, True, True]))) \<noteq> 7"
  by (simp add: written_delivered report_x86_64 shell_def rejects_def)

text \<open>
  C2. The value field of each line the program writes is a decimal numeral without
  leading zeros that denotes the value of the corresponding constant of the header:
  formatting echoes the value and does not change it. This holds of the lines that
  reach standard output in any run, and they are all seven, one for each constant,
  in a run whose writes are accepted.
\<close>

theorem values_echoed:
  "list_all2
     (\<lambda>l c. case parse_line l of
               None \<Rightarrow> False
             | Some (name, ds) \<Rightarrow> canonical ds \<and> undec ds = cval_nat c)
     (lines_of [] (written h p)) (delivered (consts_of h) (faults p)) \<and>
   (accepts 7 p \<longrightarrow> delivered (consts_of h) (faults p) = consts_of h)"
proof -
  have "length (consts_of h) = 7" by (simp add: consts_of_def)
  then have "accepts 7 p \<longrightarrow> delivered (consts_of h) (faults p) = consts_of h"
    using delivered_all [of "consts_of h" "faults p"] by (simp add: accepts_def)
  then show ?thesis
    unfolding lines_written_delivered using list_all2_delivered [OF echoed_texts] by blast
qed

theorem values_echoed_witness:
  "accepts 7 (shell [] []) \<and>
   list_all2
     (\<lambda>l c. case parse_line l of
               None \<Rightarrow> False
             | Some (name, ds) \<Rightarrow> canonical ds \<and> undec ds = cval_nat c)
     (lines_of [] (written kvm_x86_64 (shell [] []))) (consts_of kvm_x86_64)"
proof -
  have a: "accepts 7 (shell [] [])" by (rule accepts_shell_Nil)
  from values_echoed [of kvm_x86_64 "shell [] []"] a show ?thesis by auto
qed

text \<open>
  C3, as amended. The program is deterministic: for a fixed header, any two runs whose
  standard output answers the writes alike add the same bytes to standard output,
  whatever else differs between them; and in every run whose writes are accepted
  these bytes are one fixed string, determined by the constants alone.
\<close>

theorem same_platform_same_output:
  "faults p1 = faults p2 \<Longrightarrow>
     written h p1 = written h p2 \<and>
     (accepts 7 p1 \<longrightarrow> written h p1 = concat (report h))"
proof -
  assume "faults p1 = faults p2"
  then have "written h p1 = written h p2" by (simp add: written_delivered)
  moreover have "accepts 7 p1 \<longrightarrow> written h p1 = concat (report h)"
    by (simp add: written_accepts)
  ultimately show ?thesis by simp
qed

theorem same_platform_same_output_witness:
  "faults (shell [''./ioctls''] []) = faults ((shell [''ioctls'', ''-v''] [])\<lparr>stdout := ''$ ''\<rparr>) \<and>
   written kvm_x86_64 (shell [''./ioctls''] []) =
     written kvm_x86_64 ((shell [''ioctls'', ''-v''] [])\<lparr>stdout := ''$ ''\<rparr>)"
  using same_platform_same_output
    [of "shell [''./ioctls''] []" "(shell [''ioctls'', ''-v''] [])\<lparr>stdout := ''$ ''\<rparr>" kvm_x86_64]
  by (simp add: shell_def)

text \<open>
  C3 as stated speaks of any two runs. On one platform, a run started with standard
  output closed writes nothing, and a run started with a working output writes the
  seven lines.
\<close>

theorem closed_stdout_differs:
  "written kvm_x86_64 (shell [''./ioctls''] []) \<noteq>
   written kvm_x86_64 (shell [''./ioctls''] [True, True, True, True, True, True, True])"
  by (simp add: written_delivered report_x86_64 shell_def rejects_def)

text \<open>
  C4. The claim is that a normal run exits with status 0. \<^verbatim>\<open>main\<close> is declared
  \<^verbatim>\<open>void\<close> and returns no status; what the host sees is the result of the last
  \<^verbatim>\<open>printf\<close>, the length of the last line. On x86-64 Linux that is 27.
\<close>

theorem exit_status_x86_64:
  "exit_status (main kvm_x86_64 (shell [''./ioctls''] [])) = 27"
proof -
  have "kvm_line ''KVM_SET_SREGS'' (cval_nat (KVM_SET_SREGS kvm_x86_64)) = ''KVM_SET_SREGS = 1094233732\<newline>''"
    by (simp add: kvm_x86_64_def kvm_line_def dec_def ultoa.simps digit_def)
  then show ?thesis
    by (simp add: exit_status_def main_ret shell_def rejects_def)
qed

text \<open>
  The same for every header: the last line has 17 bytes besides the digits, and a
  64-bit value has at most 20 digits, so the status of a normal run is never 0.
\<close>

lemma exit_status_normal:
  "accepts 7 p \<Longrightarrow> 18 \<le> exit_status (main h p) \<and> exit_status (main h p) \<le> 37"
proof -
  assume "accepts 7 p"
  then have "\<not> rejects (drop 6 (faults p))" by (rule accepts_last)
  then have "ret (main h p) = 17 + int (length (dec (cval_nat (KVM_SET_SREGS h))))"
    by (simp add: main_ret kvm_line_def)
  with length_dec [of "KVM_SET_SREGS h"] show ?thesis
    by (simp add: exit_status_def)
qed

text \<open>
  C5. The claim is that each argument has the type \<^verbatim>\<open>%lu\<close> expects. On x86-64 Linux
  the four constants defined with \<^verbatim>\<open>_IO\<close> are \<^verbatim>\<open>unsigned int\<close>; only the three
  defined with \<^verbatim>\<open>_IOR\<close> and \<^verbatim>\<open>_IOW\<close> are \<^verbatim>\<open>unsigned long\<close>.
\<close>

theorem lu_mismatch_x86_64:
  "map lu_matches (consts_of kvm_x86_64) = [False, False, True, False, False, True, True]"
  by (simp add: consts_of_def kvm_x86_64_def)

text \<open>
  C6. The program reads no input: replacing the command line, the environment
  variables and the files of a run by any others changes neither what the run writes
  to standard output nor its exit status.
\<close>

theorem no_input_dependence:
  "written h (p\<lparr>argv := a, envp := e, files := f\<rparr>) = written h p \<and>
   exit_status (main h (p\<lparr>argv := a, envp := e, files := f\<rparr>)) = exit_status (main h p)"
  by (simp add: written_delivered exit_status_def main_ret)

text \<open>
  C7, as amended. The only effect of a run is on standard output, which is only
  appended to: by exactly the seven lines in every run in which the writes are
  accepted. The command line, the environment, the files and the error stream are
  left as they were by every run. (Of the model's state, the result register and the
  stream's pending behaviour are used up by the calls; neither is a file, a global or
  a stream.)
\<close>

theorem only_stdout_changes:
  "argv (main h p) = argv p \<and> envp (main h p) = envp p \<and> files (main h p) = files p \<and>
   stderr (main h p) = stderr p \<and>
   stdout (main h p) = stdout p @ written h p \<and>
   (accepts 7 p \<longrightarrow>
      written h p = concat (report h) \<and> length (lines_of [] (written h p)) = 7)"
proof -
  have "stdout (main h p) = stdout p @ written h p"
    by (simp add: written_delivered main_stdout)
  moreover have "accepts 7 p \<longrightarrow>
      written h p = concat (report h) \<and> length (lines_of [] (written h p)) = 7"
    using written_accepts [of p h] lines_written [of p h]
    by (simp add: texts_def names_def consts_of_def)
  ultimately show ?thesis using main_frame [of h p] by blast
qed

theorem only_stdout_changes_witness:
  "accepts 7 (shell [''./ioctls''] []) \<and>
   stderr (main kvm_x86_64 (shell [''./ioctls''] [])) = stderr (shell [''./ioctls''] []) \<and>
   written kvm_x86_64 (shell [''./ioctls''] []) = concat (report kvm_x86_64) \<and>
   length (lines_of [] (written kvm_x86_64 (shell [''./ioctls''] []))) = 7"
proof -
  have a: "accepts 7 (shell [''./ioctls''] [])" by (rule accepts_shell_Nil)
  from only_stdout_changes [of kvm_x86_64 "shell [''./ioctls''] []"] a
  show ?thesis by blast
qed

text \<open>
  C7 as stated has every run write seven lines. A run started with standard output
  closed leaves standard output as it was: it has no effect on any stream.
\<close>

theorem closed_stdout_no_effect:
  "stdout (main kvm_x86_64 (shell [''./ioctls''] [True, True, True, True, True, True, True])) =
   stdout (shell [''./ioctls''] [True, True, True, True, True, True, True])"
  by (simp add: main_stdout report_x86_64 shell_def rejects_def)





end
